theory Spec2Isabelle
  imports Main
begin

section \<open>The signalling relay of webrtc-video-chat\<close>

text \<open>
  The relay (the WebSocket server script) keeps one object \<open>users\<close>, keyed by user id,
  and reacts to three events of every connection: the connection is accepted, a message
  arrives, the connection closes. This theory embeds the script function by function.
  Mutation of \<open>users\<close> and the calls of \<open>connection.send\<close> are explicit state passing;
  a JavaScript exception is a value of the result.
\<close>

subsection \<open>JavaScript values\<close>

text \<open>
  The values the script handles are what \<open>JSON.parse\<close> yields, plus \<open>undefined\<close> for a
  property that is not there. A number is kept as the text JavaScript prints for it, with
  negative zero kept apart as \<open>-0\<close>: the script uses a number only as a property key, as a
  condition and inside \<open>JSON.stringify\<close>, and all three are functions of that text. A
  literal too large for a double, such as \<open>1e400\<close>, is parsed as the number \<open>Infinity\<close>.
  An object is the list of its own properties in the order \<open>Object.values\<close> and
  \<open>JSON.stringify\<close> enumerate them.
\<close>

datatype jsval =
    JUndefined
  | JNull
  | JBool bool
  | JNum string
  | JStr string
  | JArr "jsval list"
  | JObj "(string \<times> jsval) list"

datatype exn = TypeError | SyntaxError

text \<open>
  How a call ends: it returns, or it throws. \<open>ProtoReplaced\<close> marks the one step this
  model does not follow: the connection listener storing a user object under the key
  \<open>__proto__\<close>, which would make that object, with its WebSocket, the prototype of
  \<open>users\<close>. \<open>uuid.v4()\<close> returns 36 characters, hexadecimal digits and hyphens, so the
  listener never gets that key.
\<close>

datatype outcome = Returned | Threw exn | ProtoReplaced

text \<open>\<open>ToBoolean\<close>, as the condition of an \<open>if\<close> and the operands of \<open>&&\<close> apply it.\<close>

fun ToBoolean :: "jsval \<Rightarrow> bool" where
  "ToBoolean JUndefined = False"
| "ToBoolean JNull = False"
| "ToBoolean (JBool b) = b"
| "ToBoolean (JNum d) = (d \<noteq> ''0'' \<and> d \<noteq> ''-0'' \<and> d \<noteq> ''NaN'')"
| "ToBoolean (JStr s) = (s \<noteq> [])"
| "ToBoolean (JArr xs) = True"
| "ToBoolean (JObj kvs) = True"

fun joinStrings :: "string list \<Rightarrow> string" where
  "joinStrings [] = []"
| "joinStrings [s] = s"
| "joinStrings (s # t # ss) = s @ CHR '','' # joinStrings (t # ss)"

text \<open>
  \<open>ToPropertyKey\<close> of a value used in \<open>obj[value]\<close>: its \<open>ToString\<close>. An array joins its
  elements with a comma, \<open>null\<close> and \<open>undefined\<close> elements giving the empty string. An object
  answers \<open>[object Object]\<close> through \<open>Object.prototype.toString\<close>, unless an own property
  \<open>toString\<close> (a JSON value, so not callable) hides that method: then no method yields a
  primitive and the conversion throws TypeError, which is \<open>None\<close> here.
\<close>

fun ToString :: "jsval \<Rightarrow> string option" where
  "ToString JUndefined = Some ''undefined''"
| "ToString JNull = Some ''null''"
| "ToString (JBool b) = Some (if b then ''true'' else ''false'')"
| "ToString (JNum d) = Some (if d = ''-0'' then ''0'' else d)"
| "ToString (JStr s) = Some s"
| "ToString (JArr xs) =
     map_option joinStrings
       (those (map (\<lambda>x. if x = JUndefined \<or> x = JNull then Some [] else ToString x) xs))"
| "ToString (JObj kvs) =
     (if map_of kvs ''toString'' = None then Some ''[object Object]'' else None)"

text \<open>
  \<open>message.name\<close> for the four names the script reads from a message: \<open>type\<close>,
  \<open>senderId\<close>, \<open>recipientId\<close> and \<open>userName\<close>. Reading a property of \<open>null\<close> or
  \<open>undefined\<close> throws TypeError (\<open>None\<close>). No built-in prototype defines one of the four
  names, so every other value that has no such own property answers \<open>undefined\<close>.
\<close>

fun property :: "jsval \<Rightarrow> string \<Rightarrow> jsval option" where
  "property JUndefined name = None"
| "property JNull name = None"
| "property (JObj kvs) name =
     Some (case map_of kvs name of None \<Rightarrow> JUndefined | Some v \<Rightarrow> v)"
| "property v name = Some JUndefined"

text \<open>
  \<open>JSON.stringify\<close>. The text it returns is represented by the value that text denotes:
  a property whose value is \<open>undefined\<close> is left out of an object, an \<open>undefined\<close>
  element of an array becomes \<open>null\<close>, and \<open>JSON.stringify(undefined)\<close> is \<open>undefined\<close>.
  A number that is not finite is written \<open>null\<close>, and negative zero is written \<open>0\<close>.
\<close>

fun JSON_stringify :: "jsval \<Rightarrow> jsval" where
  "JSON_stringify (JArr xs) =
     JArr (map (\<lambda>x. if JSON_stringify x = JUndefined then JNull else JSON_stringify x) xs)"
| "JSON_stringify (JObj kvs) =
     JObj (filter (\<lambda>kv. snd kv \<noteq> JUndefined) (map (\<lambda>kv. (fst kv, JSON_stringify (snd kv))) kvs))"
| "JSON_stringify (JNum d) =
     (if d = ''Infinity'' \<or> d = ''-Infinity'' \<or> d = ''NaN'' then JNull
      else if d = ''-0'' then JNum ''0''
      else JNum d)"
| "JSON_stringify v = v"

text \<open>
  \<open>JSON.parse(event.data)\<close>: the text of an inbound frame either is no JSON text, and
  \<open>JSON.parse\<close> throws SyntaxError, or it denotes a value.
\<close>

datatype payload = Undecodable string | Encodes jsval



subsection \<open>The registry \<open>users\<close>\<close>

text \<open>
  A connection is the identity of a WebSocket object. A user object has the properties
  \<open>connection\<close>, \<open>userId\<close> and \<open>userName\<close>; a property that is not there reads as
  \<open>undefined\<close> (\<open>None\<close> for the connection).
\<close>

type_synonym conn = nat

record user =
  connection :: "conn option"
  userId :: jsval
  userName :: jsval

type_synonym registry = "(string \<times> user) list"

text \<open>
  The state: the own properties of \<open>users\<close> in the order \<open>Object.values\<close> lists them
  (array-index keys in ascending order first, then the other keys in the order they were
  created), every \<open>connection.send(text)\<close> done so far, oldest first, and the prototype of
  \<open>users\<close>. The prototype is \<open>Object.prototype\<close> (\<open>None\<close>) until a join with the
  \<open>senderId\<close> \<open>__proto__\<close> replaces it by an object \<open>{userName: v}\<close> (\<open>Some v\<close>), which
  has \<open>Object.prototype\<close> as its own prototype.
\<close>

record relay =
  users :: registry
  sent :: "(conn \<times> jsval) list"
  prototype :: "jsval option"

text \<open>
  \<open>users[k]\<close>: an own property, else the property \<open>userName\<close> of a replaced prototype,
  else nothing that matters here: \<open>undefined\<close>, or a member of \<open>Object.prototype\<close>, or for
  \<open>__proto__\<close> the prototype itself. None of these has a property \<open>connection\<close>;
  \<open>undefined\<close> and the members of \<open>Object.prototype\<close> have no own enumerable property,
  and \<open>handleJoin\<close> treats the key \<open>__proto__\<close> on its own.
\<close>

datatype found = Own user | Inherited jsval | Missing

definition users_get :: "relay \<Rightarrow> string \<Rightarrow> found" where
  "users_get r k =
     (case map_of (users r) k of
        Some u \<Rightarrow> Own u
      | None \<Rightarrow>
          (case prototype r of
             None \<Rightarrow> Missing
           | Some v \<Rightarrow> if k = ''userName'' then Inherited v else Missing))"

definition is_digit :: "char \<Rightarrow> bool" where
  "is_digit c = (48 \<le> (of_char c :: int) \<and> (of_char c :: int) \<le> 57)"

fun decimal :: "int \<Rightarrow> string \<Rightarrow> int" where
  "decimal acc [] = acc"
| "decimal acc (c # cs) = decimal (10 * acc + ((of_char c :: int) - 48)) cs"

text \<open>An array index: the canonical decimal text of an integer below \<open>2^32 - 1\<close>.\<close>

definition array_index :: "string \<Rightarrow> int option" where
  "array_index k =
     (if k \<noteq> [] \<and> list_all is_digit k \<and> (k = ''0'' \<or> take 1 k \<noteq> ''0'')
         \<and> decimal 0 k < 4294967295
      then Some (decimal 0 k) else None)"

fun insert_index :: "int \<Rightarrow> string \<Rightarrow> 'a \<Rightarrow> (string \<times> 'a) list \<Rightarrow> (string \<times> 'a) list" where
  "insert_index n k v [] = [(k, v)]"
| "insert_index n k v (e # al) =
     (case array_index (fst e) of
        None \<Rightarrow> (k, v) # e # al
      | Some m \<Rightarrow> if m < n then e # insert_index n k v al else (k, v) # e # al)"

fun update_own :: "string \<Rightarrow> 'a \<Rightarrow> (string \<times> 'a) list \<Rightarrow> (string \<times> 'a) list" where
  "update_own k v [] = []"
| "update_own k v (e # al) = (if fst e = k then (k, v) # al else e # update_own k v al)"

text \<open>
  \<open>users[k] = v\<close> for a key other than \<open>__proto__\<close>: an own property keeps its place, a new
  one is created at the place its key has in the enumeration order.
\<close>

definition set_own :: "string \<Rightarrow> 'a \<Rightarrow> (string \<times> 'a) list \<Rightarrow> (string \<times> 'a) list" where
  "set_own k v al =
     (if map_of al k \<noteq> None then update_own k v al
      else case array_index k of
             None \<Rightarrow> al @ [(k, v)]
           | Some n \<Rightarrow> insert_index n k v al)"

text \<open>\<open>delete users[k]\<close>: removes the own property, and does nothing when there is none.\<close>

definition delete_own :: "string \<Rightarrow> (string \<times> 'a) list \<Rightarrow> (string \<times> 'a) list" where
  "delete_own k al = filter (\<lambda>e. fst e \<noteq> k) al"

subsection \<open>The constants of message-types.js\<close>

text \<open>
  The script imports \<open>messageTypes\<close> from a module that is not among the sources. The
  three members the script reads are parameters of the model.
\<close>

record messageTypes =
  join :: string
  signalServerConnected :: string
  userList :: string

subsection \<open>Sending\<close>

text \<open>
  \<open>sendToUser(user, message)\<close> is \<open>user.connection.send(JSON.stringify(message))\<close>. Only a
  user object that holds a WebSocket gets the message. Everything else throws TypeError:
  \<open>undefined\<close> and the members of \<open>Object.prototype\<close> have no \<open>connection\<close>, and in a
  value that came with a message a \<open>connection\<close> is JSON data, whose \<open>send\<close> cannot be
  called.
\<close>

definition sendToUser :: "found \<Rightarrow> jsval \<Rightarrow> relay \<Rightarrow> outcome \<times> relay" where
  "sendToUser u message r =
     (case u of
        Own usr \<Rightarrow>
          (case connection usr of
             None \<Rightarrow> (Threw TypeError, r)
           | Some c \<Rightarrow> (Returned, r\<lparr>sent := sent r @ [(c, JSON_stringify message)]\<rparr>))
      | Inherited v \<Rightarrow> (Threw TypeError, r)
      | Missing \<Rightarrow> (Threw TypeError, r))"

text \<open>
  The \<open>forEach\<close> of \<open>sendToAllUsers\<close> over \<open>Object.values(users)\<close>: the first user object
  without a connection throws, and the users after it are not reached.
\<close>

fun forEach_send :: "user list \<Rightarrow> jsval \<Rightarrow> (conn \<times> jsval) list \<Rightarrow> outcome \<times> (conn \<times> jsval) list" where
  "forEach_send [] message out = (Returned, out)"
| "forEach_send (u # us) message out =
     (case connection u of
        None \<Rightarrow> (Threw TypeError, out)
      | Some c \<Rightarrow> forEach_send us message (out @ [(c, JSON_stringify message)]))"

definition sendToAllUsers :: "jsval \<Rightarrow> relay \<Rightarrow> outcome \<times> relay" where
  "sendToAllUsers message r =
     (case forEach_send (map snd (users r)) message (sent r) of
        (res, out) \<Rightarrow> (res, r\<lparr>sent := out\<rparr>))"

definition getUserList :: "registry \<Rightarrow> jsval list" where
  "getUserList us =
     map (\<lambda>e. JObj [(''userName'', userName (snd e)), (''userId'', userId (snd e))]) us"

text \<open>The object literal \<open>{type: messageTypes.userList, users: getUserList()}\<close>.\<close>

definition userListMessage :: "messageTypes \<Rightarrow> registry \<Rightarrow> jsval" where
  "userListMessage mt us =
     JObj [(''type'', JStr (userList mt)), (''users'', JArr (getUserList us))]"

definition sendUpdatedUserList :: "messageTypes \<Rightarrow> relay \<Rightarrow> outcome \<times> relay" where
  "sendUpdatedUserList mt r = sendToAllUsers (userListMessage mt (users r)) r"

subsection \<open>Message handling\<close>

text \<open>
  \<open>{...user, userName: message.userName}\<close>: the own enumerable properties of \<open>user\<close>, with
  \<open>userName\<close> set. Spreading \<open>undefined\<close>, or a member of \<open>Object.prototype\<close>, copies
  nothing. Spreading a value that came with a message copies the properties of an object
  (a \<open>connection\<close> among them is JSON data and no WebSocket, so the new object holds none),
  the indices of a string or an array, and nothing of any other value.
\<close>

definition spread :: "found \<Rightarrow> user" where
  "spread u =
     (case u of
        Own usr \<Rightarrow> usr
      | Inherited v \<Rightarrow>
          \<lparr>connection = None,
           userId = (case v of
                       JObj kvs \<Rightarrow> (case map_of kvs ''userId'' of None \<Rightarrow> JUndefined | Some w \<Rightarrow> w)
                     | _ \<Rightarrow> JUndefined),
           userName = JUndefined\<rparr>
      | Missing \<Rightarrow> \<lparr>connection = None, userId = JUndefined, userName = JUndefined\<rparr>)"

text \<open>
  \<open>handleJoin\<close>. For the key \<open>__proto__\<close> the lookup answers the prototype of \<open>users\<close>, whose
  only own enumerable property, if any, is \<open>userName\<close>, and the assignment makes the new
  object \<open>{userName: message.userName}\<close> the prototype: the own properties of \<open>users\<close>
  stay as they are, and the roster is sent as after every join.
\<close>

definition handleJoin :: "messageTypes \<Rightarrow> jsval \<Rightarrow> relay \<Rightarrow> outcome \<times> relay" where
  "handleJoin mt message r =
     (case property message ''senderId'' of
        None \<Rightarrow> (Threw TypeError, r)
      | Some sender \<Rightarrow>
          (case ToString sender of
             None \<Rightarrow> (Threw TypeError, r)
           | Some k \<Rightarrow>
               (case property message ''userName'' of
                  None \<Rightarrow> (Threw TypeError, r)
                | Some name \<Rightarrow>
                    if k = ''__proto__''
                    then sendUpdatedUserList mt (r\<lparr>prototype := Some name\<rparr>)
                    else sendUpdatedUserList mt
                           (r\<lparr>users :=
                                set_own k ((spread (users_get r k))\<lparr>userName := name\<rparr>)
                                  (users r)\<rparr>))))"

text \<open>
  \<open>messageHandlers[message.type]\<close>. The object literal has the one own property
  \<open>[messageTypes.join]: handleJoin\<close>; every other key is looked up in \<open>Object.prototype\<close>,
  whose members are all truthy.
\<close>

datatype handler = HandleJoin | Inherited string

definition object_prototype_keys :: "string list" where
  "object_prototype_keys =
     [''constructor'', ''__defineGetter__'', ''__defineSetter__'', ''hasOwnProperty'',
      ''__lookupGetter__'', ''__lookupSetter__'', ''isPrototypeOf'', ''propertyIsEnumerable'',
      ''toString'', ''valueOf'', ''__proto__'', ''toLocaleString'']"

definition messageHandlers :: "messageTypes \<Rightarrow> string \<Rightarrow> handler option" where
  "messageHandlers mt k =
     (if k = join mt then Some HandleJoin
      else if k \<in> set object_prototype_keys then Some (Inherited k)
      else None)"

text \<open>
  \<open>handler(message)\<close> for an inherited member, called with \<open>this\<close> undefined (the script is
  a module, so strict). \<open>Object\<close> (the \<open>constructor\<close>) and \<open>toString\<close> return;
  \<open>isPrototypeOf\<close> returns for an argument that is no object; \<open>__proto__\<close> is no function;
  the others convert \<open>this\<close> to an object and throw. None touches \<open>users\<close> or sends.
\<close>

definition call_inherited :: "string \<Rightarrow> jsval \<Rightarrow> outcome" where
  "call_inherited k message =
     (if k = ''constructor'' \<or> k = ''toString'' then Returned
      else if k = ''isPrototypeOf''
        then (case message of JArr xs \<Rightarrow> Threw TypeError | JObj kvs \<Rightarrow> Threw TypeError
              | _ \<Rightarrow> Returned)
      else Threw TypeError)"

definition handleMessage :: "messageTypes \<Rightarrow> jsval \<Rightarrow> relay \<Rightarrow> outcome \<times> relay" where
  "handleMessage mt message r =
     (case property message ''type'' of
        None \<Rightarrow> (Threw TypeError, r)
      | Some t \<Rightarrow>
          (case ToString t of
             None \<Rightarrow> (Threw TypeError, r)
           | Some k \<Rightarrow>
               (case messageHandlers mt k of
                  Some HandleJoin \<Rightarrow> handleJoin mt message r
                | Some (Inherited f) \<Rightarrow> (call_inherited f message, r)
                | None \<Rightarrow>
                    (case (property message ''senderId'', property message ''recipientId'') of
                       (Some sender, Some recipient) \<Rightarrow>
                         if ToBoolean sender \<and> ToBoolean recipient
                         then (case ToString recipient of
                                 None \<Rightarrow> (Threw TypeError, r)
                               | Some rk \<Rightarrow> sendToUser (users_get r rk) message r)
                         else (Returned, r)
                     | _ \<Rightarrow> (Threw TypeError, r)))))"

subsection \<open>The three events of a connection\<close>

text \<open>
  The listener of \<open>'connection'\<close>. \<open>uid\<close> is what \<open>uuid.v4()\<close> returned for this
  connection.
\<close>

definition new_user :: "conn \<Rightarrow> string \<Rightarrow> user" where
  "new_user c uid = \<lparr>connection = Some c, userId = JStr uid, userName = JUndefined\<rparr>"

text \<open>The object literal \<open>{type: messageTypes.signalServerConnected, userId: user.userId}\<close>.\<close>

definition connectedMessage :: "messageTypes \<Rightarrow> string \<Rightarrow> jsval" where
  "connectedMessage mt uid =
     JObj [(''type'', JStr (signalServerConnected mt)), (''userId'', JStr uid)]"

definition on_connection :: "messageTypes \<Rightarrow> conn \<Rightarrow> string \<Rightarrow> relay \<Rightarrow> outcome \<times> relay" where
  "on_connection mt c uid r =
     (if uid = ''__proto__'' then (ProtoReplaced, r)
      else sendToUser (Own (new_user c uid)) (connectedMessage mt uid)
             (r\<lparr>users := set_own uid (new_user c uid) (users r)\<rparr>))"

definition onmessage :: "messageTypes \<Rightarrow> payload \<Rightarrow> relay \<Rightarrow> outcome \<times> relay" where
  "onmessage mt p r =
     (case p of
        Undecodable text \<Rightarrow> (Threw SyntaxError, r)
      | Encodes message \<Rightarrow> handleMessage mt message r)"

text \<open>\<open>uid\<close> is the \<open>userId\<close> of the user object the closure holds.\<close>

definition onclose :: "messageTypes \<Rightarrow> string \<Rightarrow> relay \<Rightarrow> outcome \<times> relay" where
  "onclose mt uid r = sendUpdatedUserList mt (r\<lparr>users := delete_own uid (users r)\<rparr>)"

subsection \<open>Runs\<close>

text \<open>
  The script starts with \<open>users = {}\<close> and nothing sent. Events are handled one at a
  time. No listener catches an exception, so a run is followed up to the first event
  whose listener does not return.
\<close>

definition initial :: relay where
  "initial = \<lparr>users = [], sent = [], prototype = None\<rparr>"

datatype event = Connection conn string | Message payload | Close string

definition step :: "messageTypes \<Rightarrow> event \<Rightarrow> relay \<Rightarrow> outcome \<times> relay" where
  "step mt e r =
     (case e of
        Connection c uid \<Rightarrow> on_connection mt c uid r
      | Message p \<Rightarrow> onmessage mt p r
      | Close uid \<Rightarrow> onclose mt uid r)"

fun run :: "messageTypes \<Rightarrow> event list \<Rightarrow> relay \<Rightarrow> outcome \<times> relay" where
  "run mt [] r = (Returned, r)"
| "run mt (e # es) r =
     (case step mt e r of
        (Returned, r') \<Rightarrow> run mt es r'
      | (res, r') \<Rightarrow> (res, r'))"

text \<open>
  The registries that connections, joins of registered senders and disconnects build:
  every entry is a user object that holds a connection and, as \<open>userId\<close>, its own key.
\<close>

definition registered :: "registry \<Rightarrow> bool" where
  "registered us =
     (distinct (map fst us) \<and> ''__proto__'' \<notin> set (map fst us)
      \<and> list_all (\<lambda>e. connection (snd e) \<noteq> None \<and> userId (snd e) = JStr (fst e)) us)"

text \<open>The values of \<open>messageTypes\<close> used where a run is evaluated.\<close>

definition example_types :: messageTypes where
  "example_types =
     \<lparr>join = ''join'', signalServerConnected = ''signalServerConnected'',
      userList = ''userList''\<rparr>"

subsection \<open>States and messages used in the evaluated examples\<close>

text \<open>
  The relay after \<open>a1\<close> connected on connection 1 and \<open>b1\<close> on connection 2, a join
  message, and an offer from \<open>a1\<close> to \<open>b1\<close>.
\<close>

definition two_connected :: relay where
  "two_connected =
     \<lparr>users = [(''a1'', new_user 1 ''a1''), (''b1'', new_user 2 ''b1'')],
      sent = [(1, connectedMessage example_types ''a1''), (2, connectedMessage example_types ''b1'')],
      prototype = None\<rparr>"

definition join_as :: "string \<Rightarrow> string \<Rightarrow> jsval" where
  "join_as uid name =
     JObj [(''type'', JStr ''join''), (''senderId'', JStr uid), (''userName'', JStr name)]"


section \<open>Properties\<close>

subsection \<open>Sending to a list of users\<close>

lemma forEach_send_all:
  "list_all (\<lambda>u. connection u \<noteq> None) us \<Longrightarrow>
   forEach_send us m out = (Returned, out @ map (\<lambda>u. (the (connection u), JSON_stringify m)) us)"
  by (induction us arbitrary: out) auto

lemma forEach_send_Returned:
  "forEach_send us m out = (Returned, out') \<Longrightarrow> list_all (\<lambda>u. connection u \<noteq> None) us"
  by (induction us arbitrary: out) (auto split: option.splits)

lemma map_of_update_own:
  "map_of (update_own k v al) k' = (if k' = k \<and> map_of al k \<noteq> None then Some v else map_of al k')"
  by (induction al) auto

lemma keys_update_own: "map fst (update_own k v al) = map fst al"
  by (induction al) auto

lemma set_update_own: "set (update_own k v al) \<subseteq> insert (k, v) (set al)"
  by (induction al) auto

lemma in_update_own: "map_of al k \<noteq> None \<Longrightarrow> (k, v) \<in> set (update_own k v al)"
  by (induction al) auto

lemma map_of_insert_index:
  "map_of al k = None \<Longrightarrow> map_of (insert_index n k v al) k' = (if k' = k then Some v else map_of al k')"
  by (induction al) (auto split: option.splits)

lemma set_insert_index: "set (insert_index n k v al) = insert (k, v) (set al)"
  by (induction al) (auto split: option.splits)

lemma length_insert_index: "length (insert_index n k v al) = Suc (length al)"
  by (induction al) (auto split: option.splits)

lemma distinct_insert_index:
  "distinct (map fst al) \<Longrightarrow> k \<notin> set (map fst al) \<Longrightarrow> distinct (map fst (insert_index n k v al))"
  by (induction al) (auto split: option.splits simp: set_insert_index)

lemma map_of_None_keys: "(map_of al k = None) = (k \<notin> set (map fst al))"
  by (simp add: map_of_eq_None_iff)

lemma map_of_set_own:
  "map_of (set_own k v al) k' = (if k' = k then Some v else map_of al k')"
  by (auto simp: set_own_def map_of_update_own map_of_insert_index map_add_def split: option.splits)

lemma set_set_own: "set (set_own k v al) \<subseteq> insert (k, v) (set al)"
  using set_update_own [of k v al]
  by (auto simp: set_own_def set_insert_index split: option.splits)

lemma in_set_own: "(k, v) \<in> set (set_own k v al)"
  using in_update_own [of al k v]
  by (auto simp: set_own_def set_insert_index split: option.splits)

lemma length_set_own_new: "map_of al k = None \<Longrightarrow> length (set_own k v al) = Suc (length al)"
  by (auto simp: set_own_def length_insert_index split: option.splits)

lemma keys_set_own_old: "map_of al k \<noteq> None \<Longrightarrow> map fst (set_own k v al) = map fst al"
  by (auto simp: set_own_def keys_update_own)


lemma distinct_set_own:
  "distinct (map fst al) \<Longrightarrow> distinct (map fst (set_own k v al))"
  by (auto simp: set_own_def keys_update_own distinct_insert_index map_of_None_keys split: option.splits)

lemma keys_set_own: "set (map fst (set_own k v al)) = insert k (set (map fst al))"
proof -
  have "dom (map_of (set_own k v al)) = insert k (dom (map_of al))"
    by (auto simp: map_of_set_own dom_def)
  then show ?thesis by (simp add: dom_map_of_conv_image_fst)
qed

lemma list_all_set_own:
  "list_all P al \<Longrightarrow> P (k, v) \<Longrightarrow> list_all P (set_own k v al)"
  using set_set_own [of k v al] by (auto simp: list_all_iff)

lemma map_of_delete_own:
  "map_of (delete_own k al) k' = (if k' = k then None else map_of al k')"
  by (induction al) (auto simp: delete_own_def)

lemma delete_own_absent: "map_of al k = None \<Longrightarrow> delete_own k al = al"
  by (induction al) (auto simp: delete_own_def split: if_splits)

lemma registered_set_own:
  "registered us \<Longrightarrow> k \<noteq> ''__proto__'' \<Longrightarrow> connection u \<noteq> None \<Longrightarrow> userId u = JStr k \<Longrightarrow>
   registered (set_own k u us)"
  unfolding registered_def
  by (auto simp: distinct_set_own list_all_set_own keys_set_own simp del: set_map)

lemma registered_delete_own: "registered us \<Longrightarrow> registered (delete_own k us)"
  unfolding registered_def delete_own_def
  by (auto simp: distinct_map_filter list_all_iff)

lemma registered_lookup:
  "registered us \<Longrightarrow> map_of us k = Some u \<Longrightarrow> connection u \<noteq> None \<and> userId u = JStr k \<and> k \<noteq> ''__proto__''"
proof -
  assume r: "registered us" and l: "map_of us k = Some u"
  from l have m: "(k, u) \<in> set us" by (rule map_of_SomeD)
  then have "k \<in> set (map fst us)" by force
  moreover from r have "''__proto__'' \<notin> set (map fst us)"
    unfolding registered_def by (elim conjE)
  ultimately have "k \<noteq> ''__proto__''" by blast
  moreover from r m have "connection u \<noteq> None \<and> userId u = JStr k"
    unfolding registered_def list_all_iff by fastforce
  ultimately show ?thesis by simp
qed

lemma registered_connections:
  "registered us \<Longrightarrow> list_all (\<lambda>u. connection u \<noteq> None) (map snd us)"
  unfolding registered_def by (auto simp: list_all_iff)

lemma sendUpdatedUserList_registered:
  "registered (users r) \<Longrightarrow>
   sendUpdatedUserList mt r =
     (Returned, r\<lparr>sent := sent r @ map (\<lambda>e. (the (connection (snd e)), JSON_stringify (userListMessage mt (users r)))) (users r)\<rparr>)"
  using forEach_send_all [OF registered_connections, of "users r" "userListMessage mt (users r)" "sent r"]
  by (simp add: sendUpdatedUserList_def sendToAllUsers_def comp_def)

lemma sendUpdatedUserList_users: "users (snd (sendUpdatedUserList mt r)) = users r"
  by (simp add: sendUpdatedUserList_def sendToAllUsers_def split: prod.splits)

lemma sendUpdatedUserList_Returned:
  "sendUpdatedUserList mt r = (Returned, r') \<Longrightarrow> list_all (\<lambda>u. connection u \<noteq> None) (map snd (users r))"
  by (auto simp: sendUpdatedUserList_def sendToAllUsers_def split: prod.splits dest: forEach_send_Returned)

lemma sendToUser_users: "users (snd (sendToUser u m r)) = users r"
  by (simp add: sendToUser_def split: found.splits option.splits)

lemma users_get_own: "map_of (users r) k = Some u \<Longrightarrow> users_get r k = Own u"
  by (simp add: users_get_def)

lemma spread_connection:
  "connection (spread (users_get r k)) \<noteq> None \<Longrightarrow> \<exists>u. map_of (users r) k = Some u"
  by (cases "map_of (users r) k")
     (auto simp: spread_def users_get_def split: option.splits if_splits)

lemma handleJoin_registered:
  assumes "registered (users r)" and "handleJoin mt m r = (Returned, r')"
  shows "registered (users r')"
proof -
  from assms(2) obtain s k n where
    s: "property m ''senderId'' = Some s" and k: "ToString s = Some k"
    and n: "property m ''userName'' = Some n"
    by (auto simp: handleJoin_def split: option.splits)
  show ?thesis
  proof (cases "k = ''__proto__''")
    case True
    with s k n assms(2)
    have "sendUpdatedUserList mt (r\<lparr>prototype := Some n\<rparr>) = (Returned, r')"
      by (simp add: handleJoin_def)
    then have "users r' = users r"
      using sendUpdatedUserList_users [of mt "r\<lparr>prototype := Some n\<rparr>"] by simp
    with assms(1) show ?thesis by simp
  next
    case p: False
    let ?us = "set_own k ((spread (users_get r k))\<lparr>userName := n\<rparr>) (users r)"
    from s k n p assms(2) have b: "sendUpdatedUserList mt (r\<lparr>users := ?us\<rparr>) = (Returned, r')"
      by (simp add: handleJoin_def)
    then have u: "users r' = ?us"
      using sendUpdatedUserList_users [of mt "r\<lparr>users := ?us\<rparr>"] by simp
    from b have "list_all (\<lambda>u. connection u \<noteq> None) (map snd ?us)"
      by (auto dest: sendUpdatedUserList_Returned)
    moreover have "(k, (spread (users_get r k))\<lparr>userName := n\<rparr>) \<in> set ?us"
      by (rule in_set_own)
    ultimately have "connection (spread (users_get r k)) \<noteq> None"
      by (force simp: list_all_iff)
    then have "\<exists>u. map_of (users r) k = Some u" by (rule spread_connection)
    then obtain usr where l: "map_of (users r) k = Some usr" by blast
    then have g: "users_get r k = Own usr" by (rule users_get_own)
    from assms(1) l have "connection usr \<noteq> None \<and> userId usr = JStr k"
      by (auto dest: registered_lookup)
    with assms(1) p show ?thesis unfolding u g
      by (intro registered_set_own) (auto simp: spread_def)
  qed
qed

lemma handleMessage_users:
  "handleMessage mt m r = handleJoin mt m r \<or> users (snd (handleMessage mt m r)) = users r"
  by (simp add: handleMessage_def sendToUser_users
      split: option.split handler.split prod.split)

lemma on_connection_eq:
  "uid \<noteq> ''__proto__'' \<Longrightarrow>
   on_connection mt c uid r =
     (Returned, r\<lparr>users := set_own uid (new_user c uid) (users r),
                   sent := sent r @ [(c, JSON_stringify (connectedMessage mt uid))]\<rparr>)"
  by (simp add: on_connection_def sendToUser_def new_user_def)


lemma step_registered:
  assumes "registered (users r)" and "step mt e r = (Returned, r')"
  shows "registered (users r')"
proof (cases e)
  case (Connection c uid)
  show ?thesis
  proof (cases "uid = ''__proto__''")
    case True
    with Connection assms(2) show ?thesis by (simp add: step_def on_connection_def)
  next
    case False
    with Connection assms(2) have "users r' = set_own uid (new_user c uid) (users r)"
      by (auto simp add: step_def on_connection_eq)
    with assms(1) False show ?thesis
      by (simp add: registered_set_own new_user_def)
  qed
next
  case (Message p)
  show ?thesis
  proof (cases p)
    case (Undecodable t)
    with Message assms(2) show ?thesis by (simp add: step_def onmessage_def)
  next
    case (Encodes m)
    with Message assms(2) have h: "handleMessage mt m r = (Returned, r')"
      by (simp add: step_def onmessage_def)
    from handleMessage_users [of mt m r] show ?thesis
    proof
      assume "handleMessage mt m r = handleJoin mt m r"
      with h have "handleJoin mt m r = (Returned, r')" by simp
      with assms(1) show ?thesis by (rule handleJoin_registered)
    next
      assume "users (snd (handleMessage mt m r)) = users r"
      with h assms(1) show ?thesis by simp
    qed
  qed
next
  case (Close uid)
  with assms(2) have "sendUpdatedUserList mt (r\<lparr>users := delete_own uid (users r)\<rparr>) = (Returned, r')"
    by (simp add: step_def onclose_def)
  then have "users r' = delete_own uid (users r)"
    using sendUpdatedUserList_users [of mt "r\<lparr>users := delete_own uid (users r)\<rparr>"]
    by simp
  with assms(1) show ?thesis by (simp add: registered_delete_own)
qed

lemma run_registered:
  "registered (users r) \<Longrightarrow> run mt es r = (Returned, r') \<Longrightarrow> registered (users r')"
proof (induction es arbitrary: r)
  case Nil
  then show ?case by simp
next
  case (Cons e es)
  obtain res r1 where s: "step mt e r = (res, r1)" by (cases "step mt e r")
  show ?case
  proof (cases res)
    case Returned
    with s Cons.prems(1) have "registered (users r1)" by (auto dest: step_registered)
    moreover from s Returned Cons.prems(2) have "run mt es r1 = (Returned, r')" by simp
    ultimately show ?thesis by (rule Cons.IH)
  next
    case (Threw x)
    with s Cons.prems(2) show ?thesis by simp
  next
    case ProtoReplaced
    with s Cons.prems(2) show ?thesis by simp
  qed
qed

lemma initial_registered: "registered (users initial)"
  by (simp add: initial_def registered_def)

subsection \<open>What \<open>JSON.stringify\<close> keeps\<close>



lemma stringify_connectedMessage: "JSON_stringify (connectedMessage mt uid) = connectedMessage mt uid"
  by (simp add: connectedMessage_def)

lemma stringify_userListMessage:
  "JSON_stringify (userListMessage mt us) =
     JObj [(''type'', JStr (userList mt)), (''users'', JArr (map JSON_stringify (getUserList us)))]"
  by (simp add: userListMessage_def getUserList_def comp_def)

subsection \<open>Joins, connections and the example state\<close>

lemma registered_two_connected: "registered (users two_connected)"
  by (simp add: two_connected_def registered_def new_user_def)

lemma two_connected_reached:
  "run example_types [Connection 1 ''a1'', Connection 2 ''b1''] initial = (Returned, two_connected)"
  by code_simp

text \<open>
  A join with the \<open>senderId\<close> \<open>__proto__\<close> creates no entry: it replaces the prototype,
  the roster goes out and the listener returns.
\<close>

lemma join_of_proto_replaces_prototype:
  "run example_types [Connection 1 ''a1'', Message (Encodes (join_as ''__proto__'' ''X''))] initial
   = (Returned,
      \<lparr>users = [(''a1'', new_user 1 ''a1'')],
       sent = [(1, connectedMessage example_types ''a1''),
               (1, JObj [(''type'', JStr ''userList''),
                         (''users'', JArr [JObj [(''userId'', JStr ''a1'')]])])],
       prototype = Some (JStr ''X'')\<rparr>)"
  by code_simp

lemma getUserList_registered:
  "registered us \<Longrightarrow>
   getUserList us = map (\<lambda>e. JObj [(''userName'', userName (snd e)), (''userId'', JStr (fst e))]) us"
  unfolding registered_def getUserList_def by (auto simp: list_all_iff)

lemma handleJoin_eq:
  assumes "registered (users r)" and "property m ''senderId'' = Some s" and "ToString s = Some k"
    and "map_of (users r) k = Some u" and "property m ''userName'' = Some n"
  shows "registered (set_own k (u\<lparr>userName := n\<rparr>) (users r))"
    and "handleJoin mt m r =
      sendUpdatedUserList mt (r\<lparr>users := set_own k (u\<lparr>userName := n\<rparr>) (users r)\<rparr>)"
proof -
  from assms(1) assms(4) have l: "connection u \<noteq> None \<and> userId u = JStr k \<and> k \<noteq> ''__proto__''"
    by (rule registered_lookup)
  with assms(1) show "registered (set_own k (u\<lparr>userName := n\<rparr>) (users r))"
    by (intro registered_set_own) auto
  from assms(4) have "users_get r k = Own u" by (rule users_get_own)
  with l assms show "handleJoin mt m r =
      sendUpdatedUserList mt (r\<lparr>users := set_own k (u\<lparr>userName := n\<rparr>) (users r)\<rparr>)"
    by (simp add: handleJoin_def spread_def)
qed

lemma run_connections:
  "''__proto__'' \<notin> set (map snd cs) \<Longrightarrow> distinct (map snd cs) \<Longrightarrow>
   set (map snd cs) \<inter> set (map fst (users r)) = {} \<Longrightarrow>
   fst (run mt (map (\<lambda>p. Connection (fst p) (snd p)) cs) r) = Returned
   \<and> length (users (snd (run mt (map (\<lambda>p. Connection (fst p) (snd p)) cs) r)))
       = length (users r) + length cs"
proof (induction cs arbitrary: r)
  case Nil
  then show ?case by simp
next
  case (Cons p cs)
  let ?r1 = "r\<lparr>users := set_own (snd p) (new_user (fst p) (snd p)) (users r),
                sent := sent r @ [(fst p, JSON_stringify (connectedMessage mt (snd p)))]\<rparr>"
  from Cons.prems have p: "snd p \<noteq> ''__proto__''" by auto
  then have s: "step mt (Connection (fst p) (snd p)) r = (Returned, ?r1)"
    by (simp add: step_def on_connection_eq)
  from Cons.prems have new: "map_of (users r) (snd p) = None"
    by (auto simp: map_of_None_keys)
  have k: "set (map fst (users ?r1)) = insert (snd p) (set (map fst (users r)))"
    by (simp add: keys_set_own del: set_map)
  have "set (map snd cs) \<inter> set (map fst (users ?r1)) = {}"
    unfolding k using Cons.prems by auto
  moreover from Cons.prems have "''__proto__'' \<notin> set (map snd cs)" "distinct (map snd cs)"
    by auto
  ultimately have "fst (run mt (map (\<lambda>p. Connection (fst p) (snd p)) cs) ?r1) = Returned
      \<and> length (users (snd (run mt (map (\<lambda>p. Connection (fst p) (snd p)) cs) ?r1)))
          = length (users ?r1) + length cs"
    by (intro Cons.IH)
  moreover have "length (users ?r1) = Suc (length (users r))"
    using new by (simp add: length_set_own_new)
  ultimately show ?case using s by simp
qed

text \<open>
  Every state that a run of the relay reaches is such a registry: the hypothesis
  \<open>registered\<close> of the properties below holds as long as the relay runs.
\<close>

lemma reachable_registered:
  "run mt es initial = (Returned, r) \<Longrightarrow> registered (users r)"
  using initial_registered by (rule run_registered)

lemma sendToUser_sent:
  "sent (snd (sendToUser u m r)) = sent r
   \<or> (\<exists>c. sent (snd (sendToUser u m r)) = sent r @ [(c, JSON_stringify m)])"
  by (simp add: sendToUser_def split: found.split option.split)

lemma handleMessage_sent:
  "handleMessage mt m r = handleJoin mt m r
   \<or> sent (snd (handleMessage mt m r)) = sent r
   \<or> (\<exists>c. sent (snd (handleMessage mt m r)) = sent r @ [(c, JSON_stringify m)])"
proof (cases "property m ''type''")
  case None
  then show ?thesis by (simp add: handleMessage_def)
next
  case (Some t)
  show ?thesis
  proof (cases "ToString t")
    case None
    with Some show ?thesis by (simp add: handleMessage_def)
  next
    case k: (Some k)
    show ?thesis
    proof (cases "messageHandlers mt k")
      case None
      with Some k sendToUser_sent show ?thesis
        by (simp add: handleMessage_def split: option.split)
    next
      case h: (Some h)
      with Some k show ?thesis by (cases h) (simp_all add: handleMessage_def)
    qed
  qed
qed

section \<open>The claims\<close>

subsection \<open>Failures that escape the listener\<close>

text \<open>
  C1. The claim: an envelope without a structural handler, with non-empty \<open>senderId\<close> and a
  \<open>recipientId\<close> that is no key of the registry, is dropped silently and no error is raised.
  The script has no guard on the lookup: \<open>users[message.recipientId]\<close> is \<open>undefined\<close> and
  \<open>sendToUser\<close> reads \<open>undefined.connection\<close>. After \<open>a1\<close> connected, an offer from \<open>a1\<close> to
  the unregistered id \<open>gone\<close> sends nothing and leaves the registry as it was, but the
  listener ends with a TypeError.
\<close>

theorem forward_to_absent_recipient_throws:
  "run example_types
     [Connection 1 ''a1'',
      Message (Encodes (JObj [(''type'', JStr ''offer''), (''senderId'', JStr ''a1''),
                              (''recipientId'', JStr ''gone'')]))]
     initial
   = (Threw TypeError,
      \<lparr>users = [(''a1'', new_user 1 ''a1'')],
       sent = [(1, connectedMessage example_types ''a1'')],
       prototype = None\<rparr>)"
  by code_simp

text \<open>
  C2. The claim: a payload that cannot be decoded is dropped and the relay goes on. The
  listener calls \<open>JSON.parse\<close> outside any \<open>try\<close>: for every such payload, in every
  state, the SyntaxError leaves the listener.
\<close>

theorem undecodable_payload_throws:
  "onmessage mt (Undecodable text) r = (Threw SyntaxError, r)"
  by (simp add: onmessage_def)

text \<open>
  C3. The claim: a join whose \<open>senderId\<close> is no key of the registry is a no-op. The script
  spreads the \<open>undefined\<close> lookup into a new object and stores it under that key: after
  \<open>a1\<close> connected, a join from the unregistered id \<open>ghost\<close> adds the entry \<open>ghost\<close> without
  connection and without \<open>userId\<close>, the roster with that entry goes to \<open>a1\<close>, and the
  \<open>forEach\<close> then throws TypeError at the new entry.
\<close>

theorem join_of_unknown_sender_adds_entry_and_throws:
  "run example_types
     [Connection 1 ''a1'',
      Message (Encodes (JObj [(''type'', JStr ''join''), (''senderId'', JStr ''ghost''),
                              (''userName'', JStr ''X'')]))]
     initial
   = (Threw TypeError,
      \<lparr>users = [(''a1'', new_user 1 ''a1''),
                (''ghost'', \<lparr>connection = None, userId = JUndefined, userName = JStr ''X''\<rparr>)],
       sent = [(1, connectedMessage example_types ''a1''),
               (1, JObj [(''type'', JStr ''userList''),
                         (''users'', JArr [JObj [(''userId'', JStr ''a1'')],
                                           JObj [(''userName'', JStr ''X'')]])])],
       prototype = None\<rparr>)"
  by code_simp

subsection \<open>Accepting a connection\<close>




text \<open>
  C10. Accepting a connection (with an id other than \<open>__proto__\<close>) returns and sends one
  message only, the \<open>signalServerConnected\<close> envelope on the new connection; that envelope
  is no \<open>userList\<close> envelope of any registry, and what was sent on every other connection
  is unchanged. A decoded message that is not handled by \<open>handleJoin\<close> sends nothing, or
  the message itself on one connection. So only \<open>handleJoin\<close> and \<open>onclose\<close>, the two
  callers of \<open>sendUpdatedUserList\<close>, emit a roster.
\<close>

theorem on_connection_sends_no_roster:
  "(uid \<noteq> ''__proto__'' \<longrightarrow>
      fst (on_connection mt c uid r) = Returned
    \<and> sent (snd (on_connection mt c uid r)) = sent r @ [(c, connectedMessage mt uid)]
    \<and> connectedMessage mt uid \<noteq> JSON_stringify (userListMessage mt us)
    \<and> filter (\<lambda>e. fst e \<noteq> c) (sent (snd (on_connection mt c uid r)))
        = filter (\<lambda>e. fst e \<noteq> c) (sent r))
   \<and> (handleMessage mt m r = handleJoin mt m r
      \<or> sent (snd (handleMessage mt m r)) = sent r
      \<or> (\<exists>c'. sent (snd (handleMessage mt m r)) = sent r @ [(c', JSON_stringify m)]))"
proof -
  have "connectedMessage mt uid \<noteq> JSON_stringify (userListMessage mt us)"
    by (simp add: connectedMessage_def stringify_userListMessage)
  then have "fst (on_connection mt c uid r) = Returned
    \<and> sent (snd (on_connection mt c uid r)) = sent r @ [(c, connectedMessage mt uid)]
    \<and> connectedMessage mt uid \<noteq> JSON_stringify (userListMessage mt us)
    \<and> filter (\<lambda>e. fst e \<noteq> c) (sent (snd (on_connection mt c uid r)))
        = filter (\<lambda>e. fst e \<noteq> c) (sent r)"
    if "uid \<noteq> ''__proto__''"
    using that by (simp add: on_connection_eq stringify_connectedMessage)
  with handleMessage_sent [of mt m r] show ?thesis by blast
qed

text \<open>C10 when \<open>b1\<close> connects after \<open>a1\<close>.\<close>

theorem on_connection_sends_no_roster_witness:
  "fst (on_connection example_types 2 ''b1'' (snd (on_connection example_types 1 ''a1'' initial)))
       = Returned
   \<and> filter (\<lambda>e. fst e \<noteq> 2)
        (sent (snd (on_connection example_types 2 ''b1''
                      (snd (on_connection example_types 1 ''a1'' initial)))))
     = filter (\<lambda>e. fst e \<noteq> 2) (sent (snd (on_connection example_types 1 ''a1'' initial)))
   \<and> sent (snd (on_connection example_types 2 ''b1''
                      (snd (on_connection example_types 1 ''a1'' initial))))
     = sent (snd (on_connection example_types 1 ''a1'' initial))
        @ [(2, connectedMessage example_types ''b1'')]"
proof -
  have h1: "''b1'' \<noteq> ''__proto__''" by simp
  from on_connection_sends_no_roster [of "''b1''" example_types 2 "snd (on_connection example_types 1 ''a1'' initial)"] h1
  show ?thesis by blast
qed

subsection \<open>Forwarding\<close>




subsection \<open>Joining and the roster\<close>

text \<open>
  C8. A join whose \<open>senderId\<close> is a key of the registry returns, and afterwards the registry
  maps that key to the former user object with \<open>userName\<close> set to the \<open>userName\<close> of the
  message, whatever it was before; every other key maps to what it did, the keys and their
  order are unchanged, and the connection and the \<open>userId\<close> of the entry are the former ones.
\<close>

theorem handleJoin_changes_only_userName:
  assumes "registered (users r)" and "property m ''senderId'' = Some s" and "ToString s = Some k"
    and "map_of (users r) k = Some u" and "property m ''userName'' = Some n"
    and "handleJoin mt m r = (res, r')"
  shows "res = Returned
     \<and> map_of (users r') = (map_of (users r))(k \<mapsto> u\<lparr>userName := n\<rparr>)
     \<and> map fst (users r') = map fst (users r)
     \<and> connection (u\<lparr>userName := n\<rparr>) = connection u
     \<and> userId (u\<lparr>userName := n\<rparr>) = userId u"
proof -
  let ?us = "set_own k (u\<lparr>userName := n\<rparr>) (users r)"
  have reg: "registered ?us" using assms(1-5) by (rule handleJoin_eq(1))
  have "handleJoin mt m r = sendUpdatedUserList mt (r\<lparr>users := ?us\<rparr>)"
    using assms(1-5) by (rule handleJoin_eq(2))
  with assms(6) have b: "sendUpdatedUserList mt (r\<lparr>users := ?us\<rparr>) = (res, r')" by simp
  from reg have "fst (sendUpdatedUserList mt (r\<lparr>users := ?us\<rparr>)) = Returned"
    by (simp add: sendUpdatedUserList_registered)
  with b have "res = Returned" by simp
  moreover from b have u: "users r' = ?us"
    using sendUpdatedUserList_users [of mt "r\<lparr>users := ?us\<rparr>"] by simp
  moreover have "map_of ?us = (map_of (users r))(k \<mapsto> u\<lparr>userName := n\<rparr>)"
    by (simp add: fun_eq_iff map_of_set_own)
  moreover have "map fst ?us = map fst (users r)"
    using assms(4) by (simp add: keys_set_own_old)
  ultimately show ?thesis by simp
qed

text \<open>C8 for the join of \<open>a1\<close> with the name A.\<close>

theorem handleJoin_changes_only_userName_witness:
  "registered (users two_connected)
   \<and> map_of (users (snd (handleJoin example_types (join_as ''a1'' ''A'') two_connected)))
       = (map_of (users two_connected))(''a1'' \<mapsto> (new_user 1 ''a1'')\<lparr>userName := JStr ''A''\<rparr>)
   \<and> map fst (users (snd (handleJoin example_types (join_as ''a1'' ''A'') two_connected)))
       = [''a1'', ''b1'']"
proof -
  have h2: "property (join_as ''a1'' ''A'') ''senderId'' = Some (JStr ''a1'')"
    by (simp add: join_as_def)
  have h3: "ToString (JStr ''a1'') = Some ''a1''" by simp
  have h4: "map_of (users two_connected) ''a1'' = Some (new_user 1 ''a1'')"
    by (simp add: two_connected_def)
  have h5: "property (join_as ''a1'' ''A'') ''userName'' = Some (JStr ''A'')"
    by (simp add: join_as_def)
  have h6: "handleJoin example_types (join_as ''a1'' ''A'') two_connected
    = (fst (handleJoin example_types (join_as ''a1'' ''A'') two_connected),
       snd (handleJoin example_types (join_as ''a1'' ''A'') two_connected))" by simp
  have k: "map fst (users two_connected) = [''a1'', ''b1'']"
    by (simp add: two_connected_def)
  from handleJoin_changes_only_userName [OF registered_two_connected h2 h3 h4 h5 h6] registered_two_connected k
  show ?thesis by simp
qed

text \<open>
  C7. In a registry that connections, joins of registered senders and disconnects build,
  \<open>sendUpdatedUserList\<close> returns and sends to the connection of every entry, in order, the
  \<open>userList\<close> envelope, whose list has one entry per registry entry, named or not. After
  the connections \<open>cs\<close> (distinct ids, none of them \<open>__proto__\<close>) of a fresh relay the list
  has \<open>length cs\<close> entries. After a join with \<open>userName\<close> Alice of the registered id \<open>p\<close>
  the list that is sent contains the entry with that name and that id.
\<close>

theorem roster_broadcast_lists_every_user:
  "(registered (users r) \<longrightarrow>
      sendUpdatedUserList mt r =
        (Returned, r\<lparr>sent := sent r @ map (\<lambda>e. (the (connection (snd e)),
             JObj [(''type'', JStr (userList mt)),
                   (''users'', JArr (map JSON_stringify (getUserList (users r))))])) (users r)\<rparr>)
      \<and> getUserList (users r) =
          map (\<lambda>e. JObj [(''userName'', userName (snd e)), (''userId'', JStr (fst e))]) (users r))
   \<and> (distinct (map snd cs) \<and> ''__proto__'' \<notin> set (map snd cs) \<longrightarrow>
        fst (run mt (map (\<lambda>p. Connection (fst p) (snd p)) cs) initial) = Returned
      \<and> length (getUserList (users (snd (run mt (map (\<lambda>p. Connection (fst p) (snd p)) cs) initial))))
          = length cs)
   \<and> (registered (users r) \<and> map_of (users r) p = Some u
        \<and> property m ''senderId'' = Some (JStr p)
        \<and> property m ''userName'' = Some (JStr ''Alice'') \<longrightarrow>
        fst (handleJoin mt m r) = Returned
      \<and> JObj [(''userName'', JStr ''Alice''), (''userId'', JStr p)]
          \<in> set (map JSON_stringify (getUserList (users (snd (handleJoin mt m r))))))"
proof -
  have a: "sendUpdatedUserList mt r =
        (Returned, r\<lparr>sent := sent r @ map (\<lambda>e. (the (connection (snd e)),
             JObj [(''type'', JStr (userList mt)),
                   (''users'', JArr (map JSON_stringify (getUserList (users r))))])) (users r)\<rparr>)
      \<and> getUserList (users r) =
          map (\<lambda>e. JObj [(''userName'', userName (snd e)), (''userId'', JStr (fst e))]) (users r)"
    if "registered (users r)"
    using that
    by (simp only: sendUpdatedUserList_registered stringify_userListMessage
        getUserList_registered [symmetric] simp_thms)
  have b: "fst (run mt (map (\<lambda>p. Connection (fst p) (snd p)) cs) initial) = Returned
      \<and> length (getUserList (users (snd (run mt (map (\<lambda>p. Connection (fst p) (snd p)) cs) initial))))
          = length cs"
    if "distinct (map snd cs) \<and> ''__proto__'' \<notin> set (map snd cs)"
  proof -
    have "set (map snd cs) \<inter> set (map fst (users initial)) = {}"
      by (simp add: initial_def)
    with that have "fst (run mt (map (\<lambda>p. Connection (fst p) (snd p)) cs) initial) = Returned
      \<and> length (users (snd (run mt (map (\<lambda>p. Connection (fst p) (snd p)) cs) initial)))
         = length (users initial) + length cs"
      by (intro run_connections) simp_all
    then show ?thesis by (simp add: getUserList_def initial_def)
  qed
  have c: "fst (handleJoin mt m r) = Returned
      \<and> JObj [(''userName'', JStr ''Alice''), (''userId'', JStr p)]
          \<in> set (map JSON_stringify (getUserList (users (snd (handleJoin mt m r)))))"
    if h: "registered (users r) \<and> map_of (users r) p = Some u
        \<and> property m ''senderId'' = Some (JStr p)
        \<and> property m ''userName'' = Some (JStr ''Alice'')"
  proof -
    let ?us = "set_own p (u\<lparr>userName := JStr ''Alice''\<rparr>) (users r)"
    have t: "ToString (JStr p) = Some p" by simp
    from h have h1: "registered (users r)" and h2: "map_of (users r) p = Some u"
      and h3: "property m ''senderId'' = Some (JStr p)"
      and h4: "property m ''userName'' = Some (JStr ''Alice'')" by simp_all
    have reg: "registered ?us" using h1 h3 t h2 h4 by (rule handleJoin_eq(1))
    have eq: "handleJoin mt m r = sendUpdatedUserList mt (r\<lparr>users := ?us\<rparr>)"
      using h1 h3 t h2 h4 by (rule handleJoin_eq(2))
    from reg have ret: "fst (handleJoin mt m r) = Returned"
      by (simp add: eq sendUpdatedUserList_registered)
    have us: "users (snd (handleJoin mt m r)) = ?us"
      using sendUpdatedUserList_users [of mt "r\<lparr>users := ?us\<rparr>"] by (simp add: eq)
    from h1 h2 have id: "userId u = JStr p" by (auto dest: registered_lookup)
    have "(p, u\<lparr>userName := JStr ''Alice''\<rparr>) \<in> set ?us" by (rule in_set_own)
    then have "JObj [(''userName'', userName (snd (p, u\<lparr>userName := JStr ''Alice''\<rparr>))),
                     (''userId'', userId (snd (p, u\<lparr>userName := JStr ''Alice''\<rparr>)))]
        \<in> set (getUserList ?us)"
      unfolding getUserList_def set_map by (rule imageI)
    then have "JObj [(''userName'', JStr ''Alice''), (''userId'', JStr p)] \<in> set (getUserList ?us)"
      by (simp add: id)
    then have "JSON_stringify (JObj [(''userName'', JStr ''Alice''), (''userId'', JStr p)])
        \<in> set (map JSON_stringify (getUserList ?us))"
      unfolding set_map by (rule imageI)
    then have "JObj [(''userName'', JStr ''Alice''), (''userId'', JStr p)]
        \<in> set (map JSON_stringify (getUserList ?us))"
      by simp
    with ret show ?thesis by (simp only: us simp_thms)
  qed
  from a b c show ?thesis by blast
qed

text \<open>C7 for two and three connected users and a join of \<open>a1\<close>.\<close>

theorem roster_broadcast_lists_every_user_witness:
  "registered (users two_connected)
   \<and> sendUpdatedUserList example_types two_connected =
        (Returned, two_connected\<lparr>sent := sent two_connected @ map (\<lambda>e. (the (connection (snd e)),
             JObj [(''type'', JStr (userList example_types)),
                   (''users'', JArr (map JSON_stringify (getUserList (users two_connected))))]))
           (users two_connected)\<rparr>)
   \<and> length (getUserList (users (snd (run example_types
          (map (\<lambda>p. Connection (fst p) (snd p)) [(1, ''a1''), (2, ''b1''), (3, ''c1'')]) initial))))
       = length [(1::nat, ''a1''), (2, ''b1''), (3, ''c1'')]
   \<and> JObj [(''userName'', JStr ''Alice''), (''userId'', JStr ''a1'')]
        \<in> set (map JSON_stringify (getUserList (users (snd
              (handleJoin example_types (join_as ''a1'' ''Alice'') two_connected)))))"
proof -
  have h1: "registered (users two_connected)" by (rule registered_two_connected)
  have h2: "distinct (map snd [(1::nat, ''a1''), (2, ''b1''), (3, ''c1'')])
      \<and> ''__proto__'' \<notin> set (map snd [(1::nat, ''a1''), (2, ''b1''), (3, ''c1'')])" by simp
  have h3: "registered (users two_connected)
        \<and> map_of (users two_connected) ''a1'' = Some (new_user 1 ''a1'')
        \<and> property (join_as ''a1'' ''Alice'') ''senderId'' = Some (JStr ''a1'')
        \<and> property (join_as ''a1'' ''Alice'') ''userName'' = Some (JStr ''Alice'')"
    using h1 by (simp add: two_connected_def join_as_def)
  from roster_broadcast_lists_every_user [of two_connected example_types "[(1, ''a1''), (2, ''b1''), (3, ''c1'')]" "''a1''"
      "new_user 1 ''a1''" "join_as ''a1'' ''Alice''"] h1 h2 h3
  show ?thesis by blast
qed

text \<open>
  C9, as stated, fails: the claim has the entry of a user that has not joined carry an
  empty \<open>displayName\<close>. \<open>getUserList\<close> copies \<open>user.userName\<close>, which is \<open>undefined\<close>, and
  \<open>JSON.stringify\<close> leaves such a property out. In the scenario of the specification
  (\<open>a1\<close> and \<open>b1\<close> connect, \<open>a1\<close> joins as A) both receive a roster in which the entry of
  \<open>b1\<close> has the id only.
\<close>

theorem unnamed_entry_is_not_empty_string:
  "map snd (drop 2 (sent (snd (run example_types
       [Connection 1 ''a1'', Connection 2 ''b1'', Message (Encodes (join_as ''a1'' ''A''))]
       initial))))
     = [JObj [(''type'', JStr ''userList''),
              (''users'', JArr [JObj [(''userName'', JStr ''A''), (''userId'', JStr ''a1'')],
                                JObj [(''userId'', JStr ''b1'')]])],
        JObj [(''type'', JStr ''userList''),
              (''users'', JArr [JObj [(''userName'', JStr ''A''), (''userId'', JStr ''a1'')],
                                JObj [(''userId'', JStr ''b1'')]])]]
   \<and> map snd (drop 2 (sent (snd (run example_types
       [Connection 1 ''a1'', Connection 2 ''b1'', Message (Encodes (join_as ''a1'' ''A''))]
       initial))))
     \<noteq> [JObj [(''type'', JStr ''userList''),
              (''users'', JArr [JObj [(''userName'', JStr ''A''), (''userId'', JStr ''a1'')],
                                JObj [(''userName'', JStr []), (''userId'', JStr ''b1'')]])],
        JObj [(''type'', JStr ''userList''),
              (''users'', JArr [JObj [(''userName'', JStr ''A''), (''userId'', JStr ''a1'')],
                                JObj [(''userName'', JStr []), (''userId'', JStr ''b1'')]])]]"
  by code_simp

text \<open>
  C9, amended. In a roster broadcast the entry of a registered user whose \<open>userName\<close> is
  \<open>undefined\<close> (no join yet) carries the id and no \<open>userName\<close> at all: the object that
  \<open>getUserList\<close> builds has the property with the value \<open>undefined\<close>, and the message that
  is sent has the property \<open>userId\<close> only.
\<close>

theorem unnamed_entry_omits_userName:
  assumes "registered (users r)" and "i < length (users r)"
    and "userName (snd (users r ! i)) = JUndefined"
  shows "\<exists>es. sendUpdatedUserList mt r =
        (Returned, r\<lparr>sent := sent r @ map (\<lambda>e. (the (connection (snd e)),
             JObj [(''type'', JStr (userList mt)), (''users'', JArr es)])) (users r)\<rparr>)
      \<and> length es = length (users r)
      \<and> getUserList (users r) ! i
          = JObj [(''userName'', JUndefined), (''userId'', JStr (fst (users r ! i)))]
      \<and> es ! i = JObj [(''userId'', JStr (fst (users r ! i)))]"
proof (intro exI conjI)
  from assms(1) show "sendUpdatedUserList mt r =
        (Returned, r\<lparr>sent := sent r @ map (\<lambda>e. (the (connection (snd e)),
             JObj [(''type'', JStr (userList mt)),
                   (''users'', JArr (map JSON_stringify (getUserList (users r))))])) (users r)\<rparr>)"
    by (simp only: sendUpdatedUserList_registered stringify_userListMessage)
  show "length (map JSON_stringify (getUserList (users r))) = length (users r)"
    by (simp add: getUserList_def)
  from assms show "getUserList (users r) ! i
          = JObj [(''userName'', JUndefined), (''userId'', JStr (fst (users r ! i)))]"
    by (simp add: getUserList_registered)
  from assms show "map JSON_stringify (getUserList (users r)) ! i
      = JObj [(''userId'', JStr (fst (users r ! i)))]"
    by (simp add: getUserList_registered)
qed

text \<open>C9, amended, for \<open>b1\<close>, connected and not joined.\<close>

theorem unnamed_entry_omits_userName_witness:
  "registered (users two_connected) \<and> (1::nat) < length (users two_connected)
   \<and> userName (snd (users two_connected ! 1)) = JUndefined
   \<and> (\<exists>es. sendUpdatedUserList example_types two_connected =
        (Returned, two_connected\<lparr>sent := sent two_connected @ map (\<lambda>e. (the (connection (snd e)),
             JObj [(''type'', JStr (userList example_types)), (''users'', JArr es)]))
           (users two_connected)\<rparr>)
      \<and> length es = length (users two_connected)
      \<and> es ! 1 = JObj [(''userId'', JStr ''b1'')])"
proof -
  have h2: "(1::nat) < length (users two_connected)" by (simp add: two_connected_def)
  have h3: "userName (snd (users two_connected ! 1)) = JUndefined"
    by (simp add: two_connected_def new_user_def)
  have k: "fst (users two_connected ! 1) = ''b1''" by (simp add: two_connected_def)
  from unnamed_entry_omits_userName [OF registered_two_connected h2 h3, of example_types]
  obtain es where "sendUpdatedUserList example_types two_connected =
        (Returned, two_connected\<lparr>sent := sent two_connected @ map (\<lambda>e. (the (connection (snd e)),
             JObj [(''type'', JStr (userList example_types)), (''users'', JArr es)]))
           (users two_connected)\<rparr>)"
      and "length es = length (users two_connected)"
      and "es ! 1 = JObj [(''userId'', JStr ''b1'')]"
    unfolding k by blast
  with registered_two_connected h2 h3 show ?thesis by blast
qed

subsection \<open>Disconnecting\<close>

text \<open>
  C4, as stated, fails: the claim has the second disconnect of an id send nothing, so that
  two disconnects give one roster broadcast. \<open>onclose\<close> calls \<open>sendUpdatedUserList\<close>
  whether or not \<open>delete\<close> removed an entry. After \<open>a1\<close> and \<open>b1\<close> connected and \<open>b1\<close>
  closed twice, the connection of \<open>a1\<close> was sent two \<open>userList\<close> envelopes.
\<close>

theorem two_disconnects_two_rosters:
  "fst (run example_types [Connection 1 ''a1'', Connection 2 ''b1'', Close ''b1'', Close ''b1'']
          initial) = Returned
   \<and> map snd (filter (\<lambda>e. fst e = 1)
        (sent (snd (run example_types
           [Connection 1 ''a1'', Connection 2 ''b1'', Close ''b1'', Close ''b1''] initial))))
     = [JObj [(''type'', JStr ''signalServerConnected''), (''userId'', JStr ''a1'')],
        JObj [(''type'', JStr ''userList''), (''users'', JArr [JObj [(''userId'', JStr ''a1'')]])],
        JObj [(''type'', JStr ''userList''), (''users'', JArr [JObj [(''userId'', JStr ''a1'')]])]]
   \<and> sent (snd (run example_types
           [Connection 1 ''a1'', Connection 2 ''b1'', Close ''b1'', Close ''b1''] initial))
     \<noteq> sent (snd (run example_types
           [Connection 1 ''a1'', Connection 2 ''b1'', Close ''b1''] initial))"
  by code_simp

text \<open>
  C4, amended. In a registry that connections, joins of registered senders and disconnects
  build, a disconnect returns, removes the entry of the id and leaves every other entry,
  and sends the roster to every remaining entry; a second disconnect of the same id
  returns too and leaves the registry as it is, and sends the same roster once more to
  every remaining entry.
\<close>

theorem second_disconnect_broadcasts_again:
  assumes "registered (users r)" and "onclose mt uid r = (res, r1)"
  shows "res = Returned
     \<and> map_of (users r1) = (map_of (users r))(uid := None)
     \<and> sent r1 = sent r @ map (\<lambda>e. (the (connection (snd e)),
                                     JSON_stringify (userListMessage mt (users r1)))) (users r1)
     \<and> onclose mt uid r1 =
         (Returned, r1\<lparr>sent := sent r1 @ map (\<lambda>e. (the (connection (snd e)),
                                     JSON_stringify (userListMessage mt (users r1)))) (users r1)\<rparr>)"
proof -
  let ?us = "delete_own uid (users r)"
  let ?out = "map (\<lambda>e. (the (connection (snd e)), JSON_stringify (userListMessage mt ?us))) ?us"
  have reg: "registered ?us" using assms(1) by (rule registered_delete_own)
  have "sendUpdatedUserList mt (r\<lparr>users := ?us\<rparr>) =
      (Returned, r\<lparr>users := ?us, sent := sent r @ ?out\<rparr>)"
    using reg by (simp add: sendUpdatedUserList_registered)
  with assms(2) have res: "res = Returned"
    and r1: "r1 = r\<lparr>users := ?us, sent := sent r @ ?out\<rparr>"
    by (simp_all add: onclose_def)
  have u: "users r1 = ?us" by (simp add: r1)
  have s: "sent r1 = sent r @ ?out" by (simp add: r1)
  have reg1: "registered (users r1)" using reg by (simp only: u)
  have gone: "map_of (users r1) uid = None" by (simp add: u map_of_delete_own)
  then have again: "delete_own uid (users r1) = users r1" by (rule delete_own_absent)
  have "r1\<lparr>users := users r1\<rparr> = r1" by simp
  then have "onclose mt uid r1 = sendUpdatedUserList mt r1"
    by (simp only: onclose_def again)
  then have twice: "onclose mt uid r1 =
      (Returned, r1\<lparr>sent := sent r1 @ map (\<lambda>e. (the (connection (snd e)),
                                     JSON_stringify (userListMessage mt (users r1)))) (users r1)\<rparr>)"
    using sendUpdatedUserList_registered [OF reg1, of mt] by simp
  have m: "map_of (users r1) = (map_of (users r))(uid := None)"
    by (simp add: u fun_eq_iff map_of_delete_own)
  have s': "sent r1 = sent r @ map (\<lambda>e. (the (connection (snd e)),
                                     JSON_stringify (userListMessage mt (users r1)))) (users r1)"
    by (simp only: s u)
  from res m s' twice show ?thesis by (intro conjI)
qed

text \<open>C4, amended, for two disconnects of \<open>b1\<close>.\<close>

theorem second_disconnect_broadcasts_again_witness:
  "registered (users two_connected)
   \<and> fst (onclose example_types ''b1'' two_connected) = Returned
   \<and> onclose example_types ''b1'' (snd (onclose example_types ''b1'' two_connected)) =
       (Returned, (snd (onclose example_types ''b1'' two_connected))
          \<lparr>sent := sent (snd (onclose example_types ''b1'' two_connected))
             @ map (\<lambda>e. (the (connection (snd e)),
                     JSON_stringify (userListMessage example_types
                        (users (snd (onclose example_types ''b1'' two_connected))))))
                 (users (snd (onclose example_types ''b1'' two_connected)))\<rparr>)"
proof -
  have h2: "onclose example_types ''b1'' two_connected
    = (fst (onclose example_types ''b1'' two_connected),
       snd (onclose example_types ''b1'' two_connected))" by simp
  from second_disconnect_broadcasts_again [OF registered_two_connected h2] registered_two_connected show ?thesis by blast
qed

end
